theory Spec2Isabelle
  imports Main "HOL-Library.Word"
begin

section \<open>Python values and exceptions\<close>

text \<open>
  The module \<open>accessible_output2/outputs/voiceover.py\<close> is glue around four foreign
  functions. Every exception that is an instance of Python's \<open>Exception\<close> is a value
  of \<open>pyexc\<close>; a call that may raise returns \<open>pyexc + 'a\<close>, with \<open>Inl\<close> the
  exception. The strings are the messages the source builds.
\<close>

datatype pyexc =
    ValueError string
  | RuntimeError string
  | TypeError string
  | FileNotFoundError string
  | AttributeError string
  | UnicodeEncodeError
  | OverflowError string
  | OtherError string

type_synonym ptr = "64 word"
type_synonym byte = "8 word"

text \<open>
  A window handle as Python sees it: \<open>None\<close>, an \<open>int\<close>, a \<open>ctypes.c_void_p\<close>
  (a 64-bit address, null when zero), or some other object. Of another object the code
  observes two things only: what \<open>handle in (None, 0)\<close> does on it (true for \<open>0.0\<close>
  and \<open>False\<close>; an \<open>__eq__\<close> of its own may raise), and what \<open>int(handle)\<close> does,
  which is to return an integer or to raise: \<open>TypeError\<close> or \<open>ValueError\<close> for most
  objects, \<open>OverflowError\<close> for \<open>float('inf')\<close>, anything for an \<open>__int__\<close> of its
  own.
\<close>

datatype int_conv = IntOk int | IntRaises pyexc

datatype handle_val =
    HNone
  | HInt int
  | HVoidP ptr
  | HOther "pyexc + bool" int_conv

text \<open>\<open>hwnd in (None, 0)\<close>: ctypes instances compare by identity, so a \<open>c_void_p\<close>
  is never equal to \<open>None\<close> or to \<open>0\<close>, whatever address it holds.\<close>

fun in_none_zero :: "handle_val \<Rightarrow> pyexc + bool" where
  "in_none_zero HNone = Inr True"
| "in_none_zero (HInt n) = Inr (n = 0)"
| "in_none_zero (HVoidP p) = Inr False"
| "in_none_zero (HOther z c) = z"

text \<open>\<open>int(hwnd)\<close>.\<close>

fun py_int :: "handle_val \<Rightarrow> pyexc + int" where
  "py_int HNone = Inl (TypeError ''int() argument must be a string, a bytes-like object or a real number'')"
| "py_int (HInt n) = Inr n"
| "py_int (HVoidP p) = Inl (TypeError ''int() argument must be a string, a bytes-like object or a real number'')"
| "py_int (HOther z (IntOk n)) = Inr n"
| "py_int (HOther z (IntRaises e)) = Inl e"

text \<open>The exceptions that \<open>except (TypeError, ValueError)\<close> catches;
  \<open>UnicodeEncodeError\<close> is a subclass of \<open>ValueError\<close>.\<close>

fun type_or_value_error :: "pyexc \<Rightarrow> bool" where
  "type_or_value_error (TypeError m) = True"
| "type_or_value_error (ValueError m) = True"
| "type_or_value_error UnicodeEncodeError = True"
| "type_or_value_error e = False"

text \<open>\<open>ctypes.c_void_p(n)\<close> keeps the low 64 bits of \<open>n\<close>.\<close>

definition c_void_p :: "int \<Rightarrow> ptr" where
  "c_void_p n = word_of_int n"

text \<open>
  The \<open>text\<close> argument of \<open>speak\<close>: a \<open>str\<close>, which is a sequence of code points, or
  anything else. \<open>str.encode("utf-8")\<close> refuses the surrogate code points
  \<open>U+D800\<close> to \<open>U+DFFF\<close> with \<open>UnicodeEncodeError\<close>.
\<close>

datatype pytext = PyStr "nat list" | PyNonStr

definition utf8_char :: "nat \<Rightarrow> pyexc + byte list" where
  "utf8_char cp =
     (if cp < 0x80 then Inr [of_nat cp]
      else if cp < 0x800 then Inr [of_nat (0xC0 + cp div 64), of_nat (0x80 + cp mod 64)]
      else if 0xD800 \<le> cp \<and> cp \<le> 0xDFFF then Inl UnicodeEncodeError
      else if cp < 0x10000 then
        Inr [of_nat (0xE0 + cp div 4096), of_nat (0x80 + (cp div 64) mod 64),
             of_nat (0x80 + cp mod 64)]
      else
        Inr [of_nat (0xF0 + cp div 262144), of_nat (0x80 + (cp div 4096) mod 64),
             of_nat (0x80 + (cp div 64) mod 64), of_nat (0x80 + cp mod 64)])"

fun encode_utf8 :: "nat list \<Rightarrow> pyexc + byte list" where
  "encode_utf8 [] = Inr []"
| "encode_utf8 (c # cs) =
     (case utf8_char c of
        Inl e \<Rightarrow> Inl e
      | Inr bs \<Rightarrow> (case encode_utf8 cs of Inl e \<Rightarrow> Inl e | Inr rest \<Rightarrow> Inr (bs @ rest)))"

section \<open>The native library\<close>

text \<open>
  The calls that reached the native library, oldest first. Each foreign function is an
  arbitrary deterministic function of the calls made before it and of its arguments: it
  returns a value or raises.
\<close>

datatype native_call =
    Call_init ptr
  | Call_is_running
  | Call_announce "byte list" int
  | Call_shutdown

record native_lib =
  vo_init_with_window :: "native_call list \<Rightarrow> ptr \<Rightarrow> pyexc + bool"
  vo_is_running :: "native_call list \<Rightarrow> pyexc + bool"
  vo_announce :: "native_call list \<Rightarrow> byte list \<Rightarrow> int \<Rightarrow> pyexc + bool"
  vo_shutdown :: "native_call list \<Rightarrow> pyexc + unit"

section \<open>VoiceOverBridge\<close>

record bridge =
  lib :: native_lib
  initialized :: bool

text \<open>The state a bridge method works on: the bridge object and the native call log.\<close>

type_synonym bstate = "bridge \<times> native_call list"

text \<open>\<open>VoiceOverBridge.init\<close>.\<close>

definition bridge_init :: "handle_val \<Rightarrow> bstate \<Rightarrow> (pyexc + bool) \<times> bstate" where
  "bridge_init hwnd s =
     (case s of (b, calls) \<Rightarrow>
        (case in_none_zero hwnd of
           Inl e \<Rightarrow> (Inl e, (b, calls))
         | Inr z \<Rightarrow>
             if z then
               (Inl (ValueError ''VoiceOver init requires a valid window handle''), (b, calls))
             else
               (case (case hwnd of HVoidP p \<Rightarrow> Inr p
                      | _ \<Rightarrow> (case py_int hwnd of Inl e \<Rightarrow> Inl e | Inr n \<Rightarrow> Inr (c_void_p n))) of
                  Inl e \<Rightarrow> (Inl e, (b, calls))
                | Inr p \<Rightarrow>
                    (case vo_init_with_window (lib b) calls p of
                       Inl e \<Rightarrow> (Inl e, (b, calls @ [Call_init p]))
                     | Inr ok \<Rightarrow> (Inr ok, (b\<lparr>initialized := ok\<rparr>, calls @ [Call_init p]))))))"

text \<open>\<open>VoiceOverBridge.is_running\<close>.\<close>

definition bridge_is_running :: "bstate \<Rightarrow> (pyexc + bool) \<times> bstate" where
  "bridge_is_running s =
     (case s of (b, calls) \<Rightarrow> (vo_is_running (lib b) calls, (b, calls @ [Call_is_running])))"

text \<open>\<open>VoiceOverBridge.speak\<close>.\<close>

definition bridge_speak :: "pytext \<Rightarrow> bool \<Rightarrow> bstate \<Rightarrow> (pyexc + bool) \<times> bstate" where
  "bridge_speak text interrupt s =
     (case s of (b, calls) \<Rightarrow>
        if \<not> initialized b then
          (Inl (RuntimeError ''VoiceOver not initialized with a window yet.''), (b, calls))
        else
          (case text of
             PyNonStr \<Rightarrow> (Inl (TypeError ''VoiceOver.speak expects a string message''), (b, calls))
           | PyStr cps \<Rightarrow>
               (case encode_utf8 cps of
                  Inl e \<Rightarrow> (Inl e, (b, calls))
                | Inr payload \<Rightarrow>
                    (vo_announce (lib b) calls payload (if interrupt then 1 else 0),
                     (b, calls @ [Call_announce payload (if interrupt then 1 else 0)])))))"

text \<open>\<open>VoiceOverBridge.shutdown\<close>: the flag is cleared after the native call, so
  only when that call returns.\<close>

definition bridge_shutdown :: "bstate \<Rightarrow> (pyexc + unit) \<times> bstate" where
  "bridge_shutdown s =
     (case s of (b, calls) \<Rightarrow>
        (case vo_shutdown (lib b) calls of
           Inl e \<Rightarrow> (Inl e, (b, calls @ [Call_shutdown]))
         | Inr u \<Rightarrow> (Inr (), (b\<lparr>initialized := False\<rparr>, calls @ [Call_shutdown]))))"

section \<open>Constructing a bridge\<close>

text \<open>
  The collaborators of the constructor are parameters: the functions of \<open>os.path\<close>,
  the module's own \<open>__file__\<close>, the optional module \<open>platform_utils.paths\<close>
  (absent when its import fails; each of its functions returns or raises) and
  \<open>ctypes.CDLL\<close>. A loaded library answers \<open>hasattr\<close> for a symbol name and carries
  the four foreign functions.
\<close>

record paths_module =
  is_frozen :: "pyexc + bool"
  embedded_data_path :: "pyexc + string"
  module_path :: "pyexc + string"

record cdll =
  has_symbol :: "string \<Rightarrow> bool"
  foreign :: native_lib

text \<open>
  A window of the GUI toolkit. For each accessor, \<open>hasattr\<close> is false, or raises (it
  lets through every exception but \<open>AttributeError\<close>), or is true, and then the call
  returns a handle value or raises. \<open>wx\<close> is absent when its import failed;
  \<open>wx.GetApp()\<close> and \<open>app.GetTopWindow()\<close> return an object or \<open>None\<close>, or raise.
\<close>

datatype accessor = Absent | HasattrRaises pyexc | Present "pyexc + handle_val"

record window =
  MacGetTopLevelWindowRef :: accessor
  GetHandle :: accessor

record wx_app =
  GetTopWindow :: "pyexc + window option"

record wx_module =
  GetApp :: "pyexc + wx_app option"

record env =
  module_file :: string
  abspath :: "string \<Rightarrow> string"
  dirname :: "string \<Rightarrow> string"
  path_join :: "string list \<Rightarrow> string"
  path_exists :: "string \<Rightarrow> bool"
  platform_paths :: "paths_module option"
  CDLL :: "string \<Rightarrow> pyexc + cdll"
  wx :: "wx_module option"

text \<open>The candidates that the \<open>try\<close> block around \<open>platform_utils\<close> appends: an
  exception anywhere in the block keeps what was appended before it.\<close>

definition platform_candidates :: "env \<Rightarrow> string \<Rightarrow> string list" where
  "platform_candidates env dylib_name =
     (case platform_paths env of
        None \<Rightarrow> []
      | Some paths \<Rightarrow>
          (case is_frozen paths of
             Inl e \<Rightarrow> []
           | Inr frozen \<Rightarrow>
               (case (if frozen then
                        (case embedded_data_path paths of
                           Inl e \<Rightarrow> Inl e
                         | Inr d \<Rightarrow>
                             Inr (path_join env [d, ''accessible_output2'', ''lib'', dylib_name]))
                      else
                        (case module_path paths of
                           Inl e \<Rightarrow> Inl e
                         | Inr m \<Rightarrow> Inr (path_join env [m, ''lib'', dylib_name]))) of
                  Inl e \<Rightarrow> []
                | Inr c \<Rightarrow>
                    (case embedded_data_path paths of
                       Inl e \<Rightarrow> [c]
                     | Inr d \<Rightarrow>
                         [c, path_join env
                               [d, ''lib'', ''accessible_output2'', ''lib'', dylib_name]]))))"

definition candidates :: "env \<Rightarrow> string \<Rightarrow> string list" where
  "candidates env dylib_name =
     [path_join env [dirname env (dirname env (abspath env (module_file env))),
                     ''lib'', dylib_name]]
     @ platform_candidates env dylib_name
     @ [abspath env dylib_name]"

text \<open>The \<open>for\<close> loop over the candidates. It returns the list \<open>searched\<close> as it stands
  when the loop ends, and the path found, if any.\<close>

fun search :: "env \<Rightarrow> string list \<Rightarrow> string list \<Rightarrow> string list \<times> string option" where
  "search env [] searched = (searched, None)"
| "search env (candidate # rest) searched =
     (if candidate = [] then search env rest searched
      else if abspath env candidate \<in> set searched then search env rest searched
      else if path_exists env (abspath env candidate) then
        (searched @ [abspath env candidate], Some (abspath env candidate))
      else search env rest (searched @ [abspath env candidate]))"

text \<open>\<open>sep.join(xs)\<close>.\<close>

fun str_join :: "string \<Rightarrow> string list \<Rightarrow> string" where
  "str_join sep [] = []"
| "str_join sep [x] = x"
| "str_join sep (x # y # ys) = x @ sep @ str_join sep (y # ys)"

definition resolve_dylib_path :: "env \<Rightarrow> string \<Rightarrow> pyexc + string" where
  "resolve_dylib_path env dylib_name =
     (case search env (candidates env dylib_name) [] of
        (searched, Some path) \<Rightarrow> Inr path
      | (searched, None) \<Rightarrow>
          Inl (FileNotFoundError
                 (''VoiceOver dylib not found. Searched: '' @ str_join '', '' searched)))"

definition required :: "string list" where
  "required = [''vo_init_with_window'', ''vo_is_running'', ''vo_announce'', ''vo_shutdown'']"

text \<open>\<open>_configure_signatures\<close>: the first missing symbol raises; declaring the
  signatures has no effect on what the calls return.\<close>

definition configure_signatures :: "cdll \<Rightarrow> pyexc + unit" where
  "configure_signatures l =
     (case find (\<lambda>name. \<not> has_symbol l name) required of
        Some name \<Rightarrow> Inl (AttributeError (''Loaded VoiceOver library missing symbol: '' @ name))
      | None \<Rightarrow> Inr ())"

text \<open>\<open>VoiceOverBridge.__init__\<close>.\<close>

definition bridge_new :: "env \<Rightarrow> string \<Rightarrow> cdll option \<Rightarrow> pyexc + bridge" where
  "bridge_new env dylib_name lib_arg =
     (case (case lib_arg of
              None \<Rightarrow>
                (case resolve_dylib_path env dylib_name of
                   Inl e \<Rightarrow> Inl e
                 | Inr path \<Rightarrow> CDLL env path)
            | Some l \<Rightarrow> Inr l) of
        Inl e \<Rightarrow> Inl e
      | Inr l \<Rightarrow>
          (case configure_signatures l of
             Inl e \<Rightarrow> Inl e
           | Inr u \<Rightarrow> Inr \<lparr>lib = foreign l, initialized = False\<rparr>))"

section \<open>The output adapter VoiceOver\<close>

text \<open>The fields of a \<open>VoiceOver\<close> object, and the native call log that its bridge
  extends.\<close>

record voiceover =
  bridge_ref :: "bridge option"
  window_handle :: "ptr option"
  initialization_attempted :: bool
  adapter_initialized :: bool
  last_error :: "pyexc option"
  native_calls :: "native_call list"

text \<open>\<open>VoiceOver.__init__\<close>, with the calls made so far.\<close>

definition voiceover_new :: "native_call list \<Rightarrow> voiceover" where
  "voiceover_new calls =
     \<lparr>bridge_ref = None, window_handle = None, initialization_attempted = False,
      adapter_initialized = False, last_error = None, native_calls = calls\<rparr>"

text \<open>The truth value of an optional \<open>c_void_p\<close>: false for \<open>None\<close> and for a null
  pointer.\<close>

definition truthy :: "ptr option \<Rightarrow> bool" where
  "truthy h = (case h of None \<Rightarrow> False | Some p \<Rightarrow> p \<noteq> 0)"

text \<open>The first half of \<open>_extract_handle\<close>: the value that the accessor leaves in
  \<open>handle\<close>. An exception of the accessor's call is caught; one of \<open>hasattr\<close> is
  not.\<close>

definition accessor_result :: "window \<Rightarrow> pyexc + handle_val" where
  "accessor_result w =
     (case MacGetTopLevelWindowRef w of
        HasattrRaises e \<Rightarrow> Inl e
      | Present r \<Rightarrow> Inr (case r of Inl e \<Rightarrow> HNone | Inr h \<Rightarrow> h)
      | Absent \<Rightarrow>
          (case GetHandle w of
             HasattrRaises e \<Rightarrow> Inl e
           | Present r \<Rightarrow> Inr (case r of Inl e \<Rightarrow> HNone | Inr h \<Rightarrow> h)
           | Absent \<Rightarrow> Inr HNone))"

text \<open>\<open>VoiceOver._extract_handle\<close>. Only the coercion is inside a \<open>try\<close>, and that
  one catches \<open>TypeError\<close> and \<open>ValueError\<close> only.\<close>

definition extract_handle :: "window option \<Rightarrow> pyexc + ptr option" where
  "extract_handle window =
     (case window of
        None \<Rightarrow> Inr None
      | Some w \<Rightarrow>
          (case accessor_result w of
             Inl e \<Rightarrow> Inl e
           | Inr handle \<Rightarrow>
               (case in_none_zero handle of
                  Inl e \<Rightarrow> Inl e
                | Inr z \<Rightarrow>
                    if z then Inr None
                    else
                      (case handle of
                         HVoidP p \<Rightarrow> Inr (Some p)
                       | _ \<Rightarrow>
                           (case py_int handle of
                              Inr n \<Rightarrow> Inr (Some (c_void_p n))
                            | Inl e \<Rightarrow> if type_or_value_error e then Inr None else Inl e)))))"

text \<open>\<open>VoiceOver.set_main_window\<close>. An exception of \<open>_extract_handle\<close> leaves the
  method before its first assignment.\<close>

definition set_main_window :: "window option \<Rightarrow> voiceover \<Rightarrow> (pyexc + unit) \<times> voiceover" where
  "set_main_window window v =
     (case extract_handle window of
        Inl e \<Rightarrow> (Inl e, v)
      | Inr handle \<Rightarrow>
          if truthy handle then
            (let v1 = v\<lparr>window_handle := handle, initialization_attempted := False,
                        adapter_initialized := False\<rparr> in
             case bridge_ref v1 of
               None \<Rightarrow> (Inr (), v1)
             | Some b \<Rightarrow>
                 (case bridge_shutdown (b, native_calls v1) of
                    (r, (b', calls')) \<Rightarrow>
                      (Inr (), v1\<lparr>native_calls := calls', bridge_ref := None\<rparr>)))
          else (Inr (), v))"

text \<open>\<open>VoiceOver._auto_detect_window_handle\<close>. Nothing here is inside a \<open>try\<close>.\<close>

definition auto_detect_window_handle ::
  "env \<Rightarrow> voiceover \<Rightarrow> (pyexc + ptr option) \<times> voiceover" where
  "auto_detect_window_handle env v =
     (case wx env of
        None \<Rightarrow> (Inr None, v)
      | Some wxm \<Rightarrow>
          (case GetApp wxm of
             Inl e \<Rightarrow> (Inl e, v)
           | Inr None \<Rightarrow> (Inr None, v)
           | Inr (Some app) \<Rightarrow>
               (case GetTopWindow app of
                  Inl e \<Rightarrow> (Inl e, v)
                | Inr None \<Rightarrow> (Inr None, v)
                | Inr (Some w) \<Rightarrow>
                    (case extract_handle (Some w) of
                       Inl e \<Rightarrow> (Inl e, v)
                     | Inr handle \<Rightarrow>
                         (Inr handle,
                          if truthy handle then v\<lparr>window_handle := handle\<rparr> else v)))))"

text \<open>\<open>VoiceOver._ensure_bridge\<close>. The construction and the call of \<open>init\<close> are each
  inside a \<open>try\<close>; the look-up of the handle between them is not, so an exception of
  the auto-detection leaves the method with the bridge already stored.\<close>

definition ensure_bridge :: "env \<Rightarrow> voiceover \<Rightarrow> (pyexc + bool) \<times> voiceover" where
  "ensure_bridge env v =
     (if adapter_initialized v \<and> bridge_ref v \<noteq> None then (Inr True, v)
      else
        (case (case bridge_ref v of
                 None \<Rightarrow> bridge_new env ''libVoiceOver.dylib'' None
               | Some b \<Rightarrow> Inr b) of
           Inl exc \<Rightarrow> (Inr False, v\<lparr>last_error := Some exc\<rparr>)
         | Inr b \<Rightarrow>
             (case (if truthy (window_handle v)
                    then (Inr (window_handle v), v\<lparr>bridge_ref := Some b\<rparr>)
                    else auto_detect_window_handle env (v\<lparr>bridge_ref := Some b\<rparr>)) of
                (Inl e, v1) \<Rightarrow> (Inl e, v1)
              | (Inr handle, v1) \<Rightarrow>
                  (case handle of
                     None \<Rightarrow> (Inr False, v1\<lparr>initialization_attempted := True\<rparr>)
                   | Some p \<Rightarrow>
                       if p = 0 then (Inr False, v1\<lparr>initialization_attempted := True\<rparr>)
                       else
                         (case bridge_init (HVoidP p) (b, native_calls v1) of
                            (Inr ok, (b', calls')) \<Rightarrow>
                              if ok then
                                (Inr True,
                                 v1\<lparr>bridge_ref := Some b', native_calls := calls',
                                    adapter_initialized := True,
                                    initialization_attempted := True\<rparr>)
                              else
                                (Inr False,
                                 v1\<lparr>bridge_ref := Some b', native_calls := calls',
                                    initialization_attempted := True\<rparr>)
                          | (Inl exc, (b', calls')) \<Rightarrow>
                              (Inr False,
                               v1\<lparr>bridge_ref := Some b', native_calls := calls',
                                  last_error := Some exc,
                                  initialization_attempted := True\<rparr>))))))"

text \<open>\<open>VoiceOver.speak\<close>. The argument \<open>interrupt\<close> is what \<open>bool(interrupt)\<close>
  does: it returns a truth value or raises, inside the \<open>try\<close>. The call of
  \<open>_ensure_bridge\<close> is before the \<open>try\<close>.\<close>

definition speak :: "env \<Rightarrow> pytext \<Rightarrow> pyexc + bool \<Rightarrow> voiceover \<Rightarrow> (pyexc + bool) \<times> voiceover" where
  "speak env text interrupt v =
     (case ensure_bridge env v of
        (Inl e, v1) \<Rightarrow> (Inl e, v1)
      | (Inr ready, v1) \<Rightarrow>
          if \<not> ready then (Inr False, v1)
          else
            (case bridge_ref v1 of
               None \<Rightarrow> (Inr False, v1)
             | Some b \<Rightarrow>
                 (case interrupt of
                    Inl exc \<Rightarrow> (Inr False, v1)
                  | Inr i \<Rightarrow>
                      (case bridge_speak text i (b, native_calls v1) of
                         (Inr r, (b', calls')) \<Rightarrow>
                           (Inr r, v1\<lparr>bridge_ref := Some b', native_calls := calls'\<rparr>)
                       | (Inl exc, (b', calls')) \<Rightarrow>
                           (Inr False, v1\<lparr>bridge_ref := Some b', native_calls := calls'\<rparr>)))))"

text \<open>\<open>VoiceOver.silence\<close>.\<close>

definition silence :: "voiceover \<Rightarrow> voiceover" where
  "silence v =
     (case bridge_ref v of
        None \<Rightarrow> v
      | Some b \<Rightarrow>
          if \<not> initialized b then v
          else
            (case bridge_speak (PyStr []) True (b, native_calls v) of
               (r, (b', calls')) \<Rightarrow> v\<lparr>bridge_ref := Some b', native_calls := calls'\<rparr>))"

text \<open>\<open>VoiceOver.is_active\<close>. The call of \<open>_ensure_bridge\<close> is before the
  \<open>try\<close>.\<close>

definition is_active :: "env \<Rightarrow> voiceover \<Rightarrow> (pyexc + bool) \<times> voiceover" where
  "is_active env v =
     (case (if bridge_ref v = None then ensure_bridge env v else (Inr True, v)) of
        (Inl e, v1) \<Rightarrow> (Inl e, v1)
      | (Inr ready, v1) \<Rightarrow>
          (case bridge_ref v1 of
             None \<Rightarrow> (Inr False, v1)
           | Some b \<Rightarrow>
               (case bridge_is_running (b, native_calls v1) of
                  (Inr r, (b', calls')) \<Rightarrow>
                    (Inr r, v1\<lparr>bridge_ref := Some b', native_calls := calls'\<rparr>)
                | (Inl exc, (b', calls')) \<Rightarrow>
                    (Inr False, v1\<lparr>bridge_ref := Some b', native_calls := calls'\<rparr>))))"

text \<open>\<open>VoiceOver.shutdown\<close>.\<close>

definition shutdown :: "voiceover \<Rightarrow> voiceover" where
  "shutdown v =
     (case bridge_ref v of
        None \<Rightarrow> v
      | Some b \<Rightarrow>
          (case bridge_shutdown (b, native_calls v) of
             (r, (b', calls')) \<Rightarrow>
               v\<lparr>native_calls := calls', bridge_ref := None, adapter_initialized := False\<rparr>))"

section \<open>Sequences of calls\<close>

text \<open>A caller of a bridge makes one of four calls at a time; an exception leaves the
  caller with the state the call had reached, and the caller goes on.\<close>

datatype bridge_op =
    Op_init handle_val
  | Op_is_running
  | Op_speak pytext bool
  | Op_shutdown

fun bridge_step :: "bridge_op \<Rightarrow> bstate \<Rightarrow> bstate" where
  "bridge_step (Op_init hwnd) s = snd (bridge_init hwnd s)"
| "bridge_step Op_is_running s = snd (bridge_is_running s)"
| "bridge_step (Op_speak text interrupt) s = snd (bridge_speak text interrupt s)"
| "bridge_step Op_shutdown s = snd (bridge_shutdown s)"

definition run_ops :: "bridge_op list \<Rightarrow> bstate \<Rightarrow> bstate" where
  "run_ops ops s = fold bridge_step ops s"

text \<open>The calls a host makes on the adapter between two changes of window.\<close>

datatype adapter_op =
    A_speak pytext "pyexc + bool"
  | A_silence
  | A_is_active
  | A_shutdown

fun adapter_step :: "env \<Rightarrow> adapter_op \<Rightarrow> voiceover \<Rightarrow> voiceover" where
  "adapter_step env (A_speak text interrupt) v = snd (speak env text interrupt v)"
| "adapter_step env A_silence v = silence v"
| "adapter_step env A_is_active v = snd (is_active env v)"
| "adapter_step env A_shutdown v = shutdown v"

definition run_adapter :: "env \<Rightarrow> adapter_op list \<Rightarrow> voiceover \<Rightarrow> voiceover" where
  "run_adapter env ops v = fold (adapter_step env) ops v"

section \<open>Stub libraries and environments\<close>

text \<open>A stub library whose calls all succeed, as in the scenario of the specification.\<close>

definition stub_lib :: native_lib where
  "stub_lib =
     \<lparr>vo_init_with_window = (\<lambda>calls p. Inr True),
      vo_is_running = (\<lambda>calls. Inr True),
      vo_announce = (\<lambda>calls payload flag. Inr True),
      vo_shutdown = (\<lambda>calls. Inr ())\<rparr>"

text \<open>A library whose shutdown raises.\<close>

definition failing_shutdown_lib :: native_lib where
  "failing_shutdown_lib = stub_lib\<lparr>vo_shutdown := (\<lambda>calls. Inl (OtherError ''shutdown''))\<rparr>"

text \<open>A library whose init succeeds on the first call only.\<close>

definition init_once_lib :: native_lib where
  "init_once_lib = stub_lib\<lparr>vo_init_with_window := (\<lambda>calls p. Inr (calls = []))\<rparr>"

text \<open>A library whose announce raises.\<close>

definition failing_announce_lib :: native_lib where
  "failing_announce_lib =
     stub_lib\<lparr>vo_announce := (\<lambda>calls payload flag. Inl (OtherError ''announce''))\<rparr>"

text \<open>An environment without \<open>platform_utils\<close> and without \<open>wx\<close>, in which the library
  lies in the working directory and loads with all four symbols.\<close>

definition stub_env :: env where
  "stub_env =
     \<lparr>module_file = ''/p/o/v.py'',
      abspath = (\<lambda>p. if p = [] then ''/w'' else if hd p = CHR ''/'' then p else ''/w/'' @ p),
      dirname = (\<lambda>p. if p = ''/p/o/v.py'' then ''/p/o'' else if p = ''/p/o'' then ''/p'' else ''/''),
      path_join = str_join ''/'',
      path_exists = (\<lambda>p. p = ''/w/libVoiceOver.dylib''),
      platform_paths = None,
      CDLL = (\<lambda>path. Inr \<lparr>has_symbol = (\<lambda>name. True), foreign = stub_lib\<rparr>),
      wx = None\<rparr>"


text \<open>The same environment with the library nowhere on the filesystem.\<close>

definition missing_env :: env where
  "missing_env = stub_env\<lparr>path_exists := (\<lambda>p. False)\<rparr>"

text \<open>Windows whose accessor returns the integer handles 1 and 2.\<close>

definition window1 :: window where
  "window1 = \<lparr>MacGetTopLevelWindowRef = Absent, GetHandle = Present (Inr (HInt 1))\<rparr>"

definition window2 :: window where
  "window2 = \<lparr>MacGetTopLevelWindowRef = Present (Inr (HInt 2)), GetHandle = Absent\<rparr>"

text \<open>A window whose accessor raises.\<close>

definition broken_window :: window where
  "broken_window =
     \<lparr>MacGetTopLevelWindowRef = Present (Inl (OtherError ''dead'')), GetHandle = Absent\<rparr>"

text \<open>A window whose handle is \<open>float('inf')\<close>: it is not equal to \<open>None\<close> or \<open>0\<close>,
  and \<open>int()\<close> raises \<open>OverflowError\<close> on it.\<close>

definition inf_window :: window where
  "inf_window =
     \<lparr>MacGetTopLevelWindowRef = Absent,
      GetHandle = Present (Inr (HOther (Inr False)
        (IntRaises (OverflowError ''cannot convert float infinity to integer''))))\<rparr>"

text \<open>The stub environment with a GUI toolkit whose top window is the given one.\<close>

definition gui_env :: "window \<Rightarrow> env" where
  "gui_env w =
     stub_env\<lparr>wx := Some \<lparr>GetApp = Inr (Some \<lparr>GetTopWindow = Inr (Some w)\<rparr>)\<rparr>\<rparr>"

section \<open>Bridge: the handle check of init\<close>

text \<open>
  Claim C3, at the input where it fails. The wrapped null pointer \<open>c_void_p(0)\<close> is a
  null handle, and \<open>VoiceOverBridge.init\<close> does not reject it: the native init function
  is called with the null pointer and the flag is set from its result.
\<close>

theorem bridge_init_null_pointer_not_rejected:
  "bridge_init (HVoidP 0) (\<lparr>lib = stub_lib, initialized = False\<rparr>, []) =
     (Inr True, (\<lparr>lib = stub_lib, initialized = True\<rparr>, [Call_init 0]))"
  by (simp add: bridge_init_def stub_lib_def)

text \<open>
  Claim C3, amended. For a handle that is \<open>None\<close>, the integer \<open>0\<close>, or another
  object that compares equal to \<open>0\<close> (such as \<open>0.0\<close> and \<open>False\<close>),
  \<open>VoiceOverBridge.init\<close> raises \<open>ValueError\<close> (the invalid-argument error); the
  native call log is the one before the call, so the native init function was not
  called, and the bridge object, with its \<open>initialized\<close> flag, is unchanged. These are
  the only handles that the check rejects: it passes every \<open>c_void_p\<close>, every other
  integer and every object that compares unequal.
\<close>

theorem bridge_init_rejects_none_or_zero:
  "((hwnd = HNone \<or> hwnd = HInt 0 \<or> (\<exists>c. hwnd = HOther (Inr True) c)) \<longrightarrow>
      bridge_init hwnd (b, calls) =
        (Inl (ValueError ''VoiceOver init requires a valid window handle''), (b, calls)))
   \<and> (in_none_zero hwnd = Inr True \<longleftrightarrow>
        hwnd = HNone \<or> hwnd = HInt 0 \<or> (\<exists>c. hwnd = HOther (Inr True) c))"
  by (cases hwnd) (auto simp: bridge_init_def)

theorem bridge_init_rejects_none_or_zero_witness:
  "bridge_init (HInt 0) (\<lparr>lib = stub_lib, initialized = True\<rparr>, [Call_is_running]) =
     (Inl (ValueError ''VoiceOver init requires a valid window handle''),
      (\<lparr>lib = stub_lib, initialized = True\<rparr>, [Call_is_running]))
   \<and> bridge_init (HOther (Inr True) (IntOk 0))
        (\<lparr>lib = stub_lib, initialized = True\<rparr>, [Call_is_running]) =
     (Inl (ValueError ''VoiceOver init requires a valid window handle''),
      (\<lparr>lib = stub_lib, initialized = True\<rparr>, [Call_is_running]))
   \<and> in_none_zero (HVoidP 0) \<noteq> Inr True"
  using bridge_init_rejects_none_or_zero
          [of "HInt 0" "\<lparr>lib = stub_lib, initialized = True\<rparr>" "[Call_is_running]"]
        bridge_init_rejects_none_or_zero
          [of "HOther (Inr True) (IntOk 0)" "\<lparr>lib = stub_lib, initialized = True\<rparr>"
              "[Call_is_running]"]
        bridge_init_rejects_none_or_zero
          [of "HVoidP 0" "\<lparr>lib = stub_lib, initialized = True\<rparr>" "[Call_is_running]"]
  by simp


section \<open>Bridge: speak\<close>

text \<open>
  Claim C2, at the input where it fails. On an initialized bridge, the \<open>str\<close> made of
  the lone surrogate \<open>U+D800\<close> has no UTF-8 encoding: \<open>text.encode("utf-8")\<close> raises
  \<open>UnicodeEncodeError\<close>, which is neither of the two errors of the claim, and the
  native announce function is not called.
\<close>

theorem bridge_speak_lone_surrogate:
  "bridge_speak (PyStr [0xD800]) True (\<lparr>lib = stub_lib, initialized = True\<rparr>, []) =
     (Inl UnicodeEncodeError, (\<lparr>lib = stub_lib, initialized = True\<rparr>, []))"
  by (simp add: bridge_speak_def utf8_char_def)

text \<open>
  Claim C2, amended. \<open>VoiceOverBridge.speak\<close> raises \<open>RuntimeError\<close> (not initialized)
  whenever the flag is false, with no native call. On an initialized bridge it raises
  \<open>TypeError\<close> when the text is not a \<open>str\<close>, with no native call. On an initialized
  bridge and a \<open>str\<close> that UTF-8 can encode, it calls the native announce function
  exactly once, with the encoded bytes and with 1 for a true \<open>interrupt\<close> and 0 for a
  false one, and its outcome is the outcome of that call. A \<open>str\<close> that UTF-8 cannot
  encode raises the encoder's error with no native call.
\<close>

theorem bridge_speak_cases:
  "(\<not> initialized b \<longrightarrow>
      bridge_speak text interrupt (b, calls) =
        (Inl (RuntimeError ''VoiceOver not initialized with a window yet.''), (b, calls)))
   \<and> (initialized b \<and> text = PyNonStr \<longrightarrow>
      bridge_speak text interrupt (b, calls) =
        (Inl (TypeError ''VoiceOver.speak expects a string message''), (b, calls)))
   \<and> (\<forall>cps payload.
        initialized b \<and> text = PyStr cps \<and> encode_utf8 cps = Inr payload \<longrightarrow>
        bridge_speak text interrupt (b, calls) =
          (vo_announce (lib b) calls payload (if interrupt then 1 else 0),
           (b, calls @ [Call_announce payload (if interrupt then 1 else 0)])))
   \<and> (\<forall>cps e.
        initialized b \<and> text = PyStr cps \<and> encode_utf8 cps = Inl e \<longrightarrow>
        bridge_speak text interrupt (b, calls) = (Inl e, (b, calls)))"
  by (simp add: bridge_speak_def)

theorem bridge_speak_cases_witness:
  "encode_utf8 [104, 101, 108, 108, 111] = Inr [104, 101, 108, 108, 111]
   \<and> bridge_speak (PyStr [104, 101, 108, 108, 111]) True
        (\<lparr>lib = stub_lib, initialized = True\<rparr>, []) =
       (Inr True, (\<lparr>lib = stub_lib, initialized = True\<rparr>,
                   [Call_announce [104, 101, 108, 108, 111] 1]))
   \<and> bridge_speak (PyStr [104, 101, 108, 108, 111]) True
        (\<lparr>lib = stub_lib, initialized = False\<rparr>, []) =
       (Inl (RuntimeError ''VoiceOver not initialized with a window yet.''),
        (\<lparr>lib = stub_lib, initialized = False\<rparr>, []))"
  using bridge_speak_cases
          [of "\<lparr>lib = stub_lib, initialized = True\<rparr>" "PyStr [104, 101, 108, 108, 111]" True "[]"]
        bridge_speak_cases
          [of "\<lparr>lib = stub_lib, initialized = False\<rparr>" "PyStr [104, 101, 108, 108, 111]" True "[]"]
  by (simp add: utf8_char_def stub_lib_def)

section \<open>Bridge: shutdown\<close>

text \<open>
  Claim C6, at the input where it fails. On an initialized bridge whose native shutdown
  raises, \<open>VoiceOverBridge.shutdown\<close> raises that exception after the native call, and
  the \<open>initialized\<close> flag is still true.
\<close>

theorem bridge_shutdown_raising_keeps_flag:
  "fst (bridge_shutdown (\<lparr>lib = failing_shutdown_lib, initialized = True\<rparr>, [])) =
     Inl (OtherError ''shutdown'')
   \<and> initialized (fst (snd (bridge_shutdown
                               (\<lparr>lib = failing_shutdown_lib, initialized = True\<rparr>, []))))
   \<and> snd (snd (bridge_shutdown (\<lparr>lib = failing_shutdown_lib, initialized = True\<rparr>, []))) =
       [Call_shutdown]"
  by (simp add: bridge_shutdown_def failing_shutdown_lib_def)

text \<open>
  Claim C6, amended. \<open>VoiceOverBridge.shutdown\<close> invokes the native shutdown function
  exactly once, whatever the flag was, and its outcome is the outcome of that call.
  Whenever the native call returns, the flag is false afterwards, also when it was never
  true; a second shutdown whose native call returns leaves the bridge as the first one
  left it.
\<close>

theorem bridge_shutdown_clears_flag_on_return:
  "snd (snd (bridge_shutdown (b, calls))) = calls @ [Call_shutdown]
   \<and> fst (bridge_shutdown (b, calls)) = vo_shutdown (lib b) calls
   \<and> (vo_shutdown (lib b) calls = Inr () \<longrightarrow>
        fst (snd (bridge_shutdown (b, calls))) = b\<lparr>initialized := False\<rparr>)
   \<and> (vo_shutdown (lib b) calls = Inr ()
        \<and> vo_shutdown (lib b) (calls @ [Call_shutdown]) = Inr () \<longrightarrow>
        fst (snd (bridge_shutdown (snd (bridge_shutdown (b, calls))))) =
          fst (snd (bridge_shutdown (b, calls))))"
  by (auto simp: bridge_shutdown_def split: sum.splits)

theorem bridge_shutdown_clears_flag_on_return_witness:
  "vo_shutdown stub_lib [] = Inr () \<and> vo_shutdown stub_lib [Call_shutdown] = Inr ()
   \<and> bridge_shutdown (\<lparr>lib = stub_lib, initialized = False\<rparr>, []) =
       (Inr (), (\<lparr>lib = stub_lib, initialized = False\<rparr>, [Call_shutdown]))
   \<and> fst (snd (bridge_shutdown
                 (snd (bridge_shutdown (\<lparr>lib = stub_lib, initialized = True\<rparr>, []))))) =
       \<lparr>lib = stub_lib, initialized = False\<rparr>"
  using bridge_shutdown_clears_flag_on_return [of "\<lparr>lib = stub_lib, initialized = False\<rparr>" "[]"]
        bridge_shutdown_clears_flag_on_return [of "\<lparr>lib = stub_lib, initialized = True\<rparr>" "[]"]
  by (simp add: stub_lib_def prod_eq_iff)

section \<open>Bridge: the transitions of the initialized flag\<close>

lemma bridge_step_flag:
  "(\<not> initialized (fst s) \<and> initialized (fst (bridge_step op s)) \<longrightarrow>
      (\<exists>hwnd p. op = Op_init hwnd \<and> vo_init_with_window (lib (fst s)) (snd s) p = Inr True
                \<and> snd (bridge_step op s) = snd s @ [Call_init p]))
   \<and> (initialized (fst s) \<and> \<not> initialized (fst (bridge_step op s)) \<longrightarrow>
      (op = Op_shutdown \<and> vo_shutdown (lib (fst s)) (snd s) = Inr ())
      \<or> (\<exists>hwnd p. op = Op_init hwnd \<and> vo_init_with_window (lib (fst s)) (snd s) p = Inr False
                \<and> snd (bridge_step op s) = snd s @ [Call_init p]))"
proof (cases s)
  case (Pair b calls)
  show ?thesis
  proof (cases op)
    case (Op_init hwnd)
    then show ?thesis using Pair
      by (auto simp: bridge_init_def split: sum.splits if_splits handle_val.splits)
  next
    case Op_is_running
    then show ?thesis using Pair by (simp add: bridge_is_running_def)
  next
    case (Op_speak t i)
    then show ?thesis using Pair
      by (simp add: bridge_speak_def split: pytext.splits sum.splits)
  next
    case Op_shutdown
    then show ?thesis using Pair
      by (auto simp: bridge_shutdown_def split: sum.splits)
  qed
qed

lemma run_ops_take_Suc:
  "i < length ops \<Longrightarrow>
   run_ops (take (Suc i) ops) s = bridge_step (ops ! i) (run_ops (take i ops) s)"
  by (simp add: run_ops_def take_Suc_conv_app_nth)

text \<open>
  Claim C7, at the input where it fails. The native init succeeds on the first call and
  returns false on the second, for the same handle: the second \<open>init\<close> takes the flag
  from true back to false, and it is neither a shutdown nor a change of window handle.
\<close>

theorem init_returning_false_resets_flag:
  "initialized (fst (run_ops [Op_init (HInt 1)]
                       (\<lparr>lib = init_once_lib, initialized = False\<rparr>, [])))
   \<and> \<not> initialized (fst (run_ops [Op_init (HInt 1), Op_init (HInt 1)]
                           (\<lparr>lib = init_once_lib, initialized = False\<rparr>, [])))
   \<and> [Op_init (HInt 1), Op_init (HInt 1)] ! 1 \<noteq> Op_shutdown"
  by (simp add: run_ops_def bridge_init_def init_once_lib_def stub_lib_def c_void_p_def)

text \<open>
  Claim C7, amended. In every sequence of bridge calls, from every starting state, a
  call takes the flag from false to true only if it is an \<open>init\<close> whose native call
  returned true, and from true to false only if it is a \<open>shutdown\<close> whose native call
  returned, or an \<open>init\<close> whose native call returned false.
\<close>

theorem initialized_flag_transitions:
  assumes "i < length ops"
    and "s = run_ops (take i ops) s0"
    and "s' = run_ops (take (Suc i) ops) s0"
  shows "(\<not> initialized (fst s) \<and> initialized (fst s') \<longrightarrow>
            (\<exists>hwnd p. ops ! i = Op_init hwnd
                 \<and> vo_init_with_window (lib (fst s)) (snd s) p = Inr True
                 \<and> snd s' = snd s @ [Call_init p]))
       \<and> (initialized (fst s) \<and> \<not> initialized (fst s') \<longrightarrow>
            (ops ! i = Op_shutdown \<and> vo_shutdown (lib (fst s)) (snd s) = Inr ())
            \<or> (\<exists>hwnd p. ops ! i = Op_init hwnd
                 \<and> vo_init_with_window (lib (fst s)) (snd s) p = Inr False
                 \<and> snd s' = snd s @ [Call_init p]))"
proof -
  have "s' = bridge_step (ops ! i) s"
    using assms by (simp add: run_ops_take_Suc)
  then show ?thesis
    using bridge_step_flag [of s "ops ! i"] by simp
qed

theorem initialized_flag_transitions_witness:
  "(1::nat) < length [Op_init (HInt 1), Op_init (HInt 1)]
   \<and> initialized (fst (run_ops (take 1 [Op_init (HInt 1), Op_init (HInt 1)])
                          (\<lparr>lib = init_once_lib, initialized = False\<rparr>, [])))
   \<and> \<not> initialized (fst (run_ops (take (Suc 1) [Op_init (HInt 1), Op_init (HInt 1)])
                          (\<lparr>lib = init_once_lib, initialized = False\<rparr>, [])))
   \<and> (\<exists>hwnd p. [Op_init (HInt 1), Op_init (HInt 1)] ! 1 = Op_init hwnd
         \<and> vo_init_with_window init_once_lib [Call_init 1] p = Inr False)"
  using initialized_flag_transitions
          [of 1 "[Op_init (HInt 1), Op_init (HInt 1)]"
              "run_ops (take 1 [Op_init (HInt 1), Op_init (HInt 1)])
                 (\<lparr>lib = init_once_lib, initialized = False\<rparr>, [])"
              "(\<lparr>lib = init_once_lib, initialized = False\<rparr>, [])"
              "run_ops (take (Suc 1) [Op_init (HInt 1), Op_init (HInt 1)])
                 (\<lparr>lib = init_once_lib, initialized = False\<rparr>, [])"]
  by (simp add: run_ops_def bridge_init_def init_once_lib_def stub_lib_def c_void_p_def)

section \<open>Resolving the library path\<close>









section \<open>Values of the stub environments\<close>

lemma stub_candidates:
  "candidates stub_env ''libVoiceOver.dylib'' =
     [''/p/lib/libVoiceOver.dylib'', ''/w/libVoiceOver.dylib'']"
  by (simp add: candidates_def platform_candidates_def stub_env_def)

lemma stub_resolve:
  "resolve_dylib_path stub_env ''libVoiceOver.dylib'' = Inr ''/w/libVoiceOver.dylib''"
proof -
  have "abspath stub_env ''/p/lib/libVoiceOver.dylib'' = ''/p/lib/libVoiceOver.dylib''"
    and "abspath stub_env ''/w/libVoiceOver.dylib'' = ''/w/libVoiceOver.dylib''"
    and "\<not> path_exists stub_env ''/p/lib/libVoiceOver.dylib''"
    and "path_exists stub_env ''/w/libVoiceOver.dylib''"
    by (simp_all add: stub_env_def)
  then show ?thesis
    by (simp add: resolve_dylib_path_def stub_candidates)
qed

lemma stub_bridge_new:
  "bridge_new stub_env ''libVoiceOver.dylib'' None = Inr \<lparr>lib = stub_lib, initialized = False\<rparr>"
proof -
  have "CDLL stub_env ''/w/libVoiceOver.dylib'' =
          Inr \<lparr>has_symbol = (\<lambda>name. True), foreign = stub_lib\<rparr>"
    by (simp add: stub_env_def)
  then show ?thesis
    by (simp add: bridge_new_def stub_resolve configure_signatures_def required_def)
qed

lemma gui_bridge_new:
  "bridge_new (gui_env w) ''libVoiceOver.dylib'' None =
     Inr \<lparr>lib = stub_lib, initialized = False\<rparr>"
proof -
  have c: "candidates (gui_env w) ''libVoiceOver.dylib'' =
     [''/p/lib/libVoiceOver.dylib'', ''/w/libVoiceOver.dylib'']"
    by (simp add: candidates_def platform_candidates_def gui_env_def stub_env_def)
  have "abspath (gui_env w) ''/p/lib/libVoiceOver.dylib'' = ''/p/lib/libVoiceOver.dylib''"
    and "abspath (gui_env w) ''/w/libVoiceOver.dylib'' = ''/w/libVoiceOver.dylib''"
    and "\<not> path_exists (gui_env w) ''/p/lib/libVoiceOver.dylib''"
    and "path_exists (gui_env w) ''/w/libVoiceOver.dylib''"
    by (simp_all add: gui_env_def stub_env_def)
  then have r: "resolve_dylib_path (gui_env w) ''libVoiceOver.dylib'' =
                  Inr ''/w/libVoiceOver.dylib''"
    by (simp add: resolve_dylib_path_def c)
  have "CDLL (gui_env w) ''/w/libVoiceOver.dylib'' =
          Inr \<lparr>has_symbol = (\<lambda>name. True), foreign = stub_lib\<rparr>"
    by (simp add: gui_env_def stub_env_def)
  then show ?thesis
    by (simp add: bridge_new_def r configure_signatures_def required_def)
qed

lemma missing_bridge_new:
  "bridge_new missing_env ''libVoiceOver.dylib'' None =
     Inl (FileNotFoundError
       ''VoiceOver dylib not found. Searched: /p/lib/libVoiceOver.dylib, /w/libVoiceOver.dylib'')"
proof -
  have c: "candidates missing_env ''libVoiceOver.dylib'' =
     [''/p/lib/libVoiceOver.dylib'', ''/w/libVoiceOver.dylib'']"
    by (simp add: candidates_def platform_candidates_def missing_env_def stub_env_def)
  have "abspath missing_env ''/p/lib/libVoiceOver.dylib'' = ''/p/lib/libVoiceOver.dylib''"
    and "abspath missing_env ''/w/libVoiceOver.dylib'' = ''/w/libVoiceOver.dylib''"
    and "\<And>p. \<not> path_exists missing_env p"
    by (simp_all add: missing_env_def stub_env_def)
  then have "resolve_dylib_path missing_env ''libVoiceOver.dylib'' =
     Inl (FileNotFoundError
       ''VoiceOver dylib not found. Searched: /p/lib/libVoiceOver.dylib, /w/libVoiceOver.dylib'')"
    by (simp add: resolve_dylib_path_def c)
  then show ?thesis by (simp add: bridge_new_def)
qed

lemma stub_auto_detect: "auto_detect_window_handle stub_env v = (Inr None, v)"
  by (simp add: auto_detect_window_handle_def stub_env_def)

lemma missing_auto_detect: "auto_detect_window_handle missing_env v = (Inr None, v)"
  by (simp add: auto_detect_window_handle_def missing_env_def stub_env_def)

lemma extract_window1: "extract_handle (Some window1) = Inr (Some 1)"
  by (simp add: extract_handle_def accessor_result_def window1_def c_void_p_def)

lemma extract_window2: "extract_handle (Some window2) = Inr (Some 2)"
  by (simp add: extract_handle_def accessor_result_def window2_def c_void_p_def)

lemma extract_inf_window:
  "extract_handle (Some inf_window) =
     Inl (OverflowError ''cannot convert float infinity to integer'')"
  by (simp add: extract_handle_def accessor_result_def inf_window_def)

lemma gui_auto_detect_window1:
  "auto_detect_window_handle (gui_env window1) v = (Inr (Some 1), v\<lparr>window_handle := Some 1\<rparr>)"
  by (simp add: auto_detect_window_handle_def gui_env_def extract_window1 truthy_def)

lemma gui_auto_detect_inf_window:
  "auto_detect_window_handle (gui_env inf_window) v =
     (Inl (OverflowError ''cannot convert float infinity to integer''), v)"
  by (simp add: auto_detect_window_handle_def gui_env_def extract_inf_window)

lemma stub_window1_state:
  "set_main_window (Some window1) (voiceover_new []) =
     (Inr (),
      \<lparr>bridge_ref = None, window_handle = Some 1, initialization_attempted = False,
       adapter_initialized = False, last_error = None, native_calls = []\<rparr>)"
  by (simp add: set_main_window_def extract_window1 truthy_def voiceover_new_def)

lemma stub_ensure_bridge_window1:
  "ensure_bridge stub_env
      \<lparr>bridge_ref = None, window_handle = Some 1, initialization_attempted = False,
       adapter_initialized = False, last_error = None, native_calls = []\<rparr> =
     (Inr True,
      \<lparr>bridge_ref = Some \<lparr>lib = stub_lib, initialized = True\<rparr>, window_handle = Some 1,
       initialization_attempted = True, adapter_initialized = True, last_error = None,
       native_calls = [Call_init 1]\<rparr>)"
  by (simp add: ensure_bridge_def stub_bridge_new truthy_def bridge_init_def stub_lib_def)

lemma stub_speak_window1:
  "speak stub_env (PyStr [120]) (Inr False)
     \<lparr>bridge_ref = None, window_handle = Some 1, initialization_attempted = False,
      adapter_initialized = False, last_error = None, native_calls = []\<rparr> =
     (Inr True,
      \<lparr>bridge_ref = Some \<lparr>lib = stub_lib, initialized = True\<rparr>, window_handle = Some 1,
       initialization_attempted = True, adapter_initialized = True, last_error = None,
       native_calls = [Call_init 1, Call_announce [120] 0]\<rparr>)"
  by (simp add: speak_def stub_ensure_bridge_window1 bridge_speak_def utf8_char_def stub_lib_def)

section \<open>Adapter: set_main_window\<close>

text \<open>The listed ways in which no handle comes out of a window: no window, an accessor
  that raises, no accessor at all, a \<open>None\<close> or zero handle, a handle that \<open>int()\<close>
  refuses, and a null pointer.\<close>

lemma no_handle_cases:
  "extract_handle None = Inr None"
  "MacGetTopLevelWindowRef w = Present (Inl e) \<Longrightarrow> extract_handle (Some w) = Inr None"
  "MacGetTopLevelWindowRef w = Absent \<Longrightarrow> GetHandle w = Present (Inl e) \<Longrightarrow>
     extract_handle (Some w) = Inr None"
  "MacGetTopLevelWindowRef w = Absent \<Longrightarrow> GetHandle w = Absent \<Longrightarrow>
     extract_handle (Some w) = Inr None"
  "accessor_result w = Inr h \<Longrightarrow> in_none_zero h = Inr True \<Longrightarrow>
     extract_handle (Some w) = Inr None"
  "accessor_result w = Inr (HOther (Inr False) (IntRaises (TypeError m))) \<Longrightarrow>
     extract_handle (Some w) = Inr None"
  "accessor_result w = Inr (HOther (Inr False) (IntRaises (ValueError m))) \<Longrightarrow>
     extract_handle (Some w) = Inr None"
  "accessor_result w = Inr (HVoidP 0) \<Longrightarrow> extract_handle (Some w) = Inr (Some 0)"
  "accessor_result w = Inr (HInt n) \<Longrightarrow> n \<noteq> 0 \<Longrightarrow> c_void_p n = 0 \<Longrightarrow>
     extract_handle (Some w) = Inr (Some 0)"
  by (simp_all add: extract_handle_def accessor_result_def)

text \<open>The ways in which \<open>_extract_handle\<close> raises: \<open>hasattr\<close> raising, the comparison
  with \<open>None\<close> and \<open>0\<close> raising, and \<open>int()\<close> raising anything but \<open>TypeError\<close>
  and \<open>ValueError\<close>.\<close>

lemma extract_handle_raises:
  "extract_handle window = Inl e \<longleftrightarrow>
     (\<exists>w. window = Some w \<and>
        (accessor_result w = Inl e
         \<or> (\<exists>h. accessor_result w = Inr h \<and>
               (in_none_zero h = Inl e
                \<or> (in_none_zero h = Inr False \<and> py_int h = Inl e
                     \<and> \<not> type_or_value_error e \<and> (\<forall>p. h \<noteq> HVoidP p))))))"
  by (auto simp: extract_handle_def split: option.splits sum.splits handle_val.splits if_splits)

text \<open>
  Claim C9. When \<open>_extract_handle\<close> yields no usable handle for the window (it returns
  \<open>None\<close> or a null pointer, which covers a null window, accessors that raise, a null
  or zero handle and a handle that cannot be coerced; or it raises), \<open>set_main_window\<close>
  leaves the adapter as it was: the stored window handle, the bridge reference, both
  flags, the last error and the native call log are unchanged, so the bridge's shutdown
  was not called. When \<open>_extract_handle\<close> returns, \<open>set_main_window\<close> returns.
\<close>

theorem set_main_window_without_handle:
  assumes "\<forall>handle. extract_handle window = Inr handle \<longrightarrow> \<not> truthy handle"
  shows "snd (set_main_window window v) = v
       \<and> (\<forall>handle. extract_handle window = Inr handle \<longrightarrow>
            fst (set_main_window window v) = Inr ())"
  using assms by (cases "extract_handle window") (simp_all add: set_main_window_def)

theorem set_main_window_without_handle_witness:
  "extract_handle (Some broken_window) = Inr None
   \<and> \<not> truthy None
   \<and> set_main_window (Some broken_window)
        \<lparr>bridge_ref = Some \<lparr>lib = stub_lib, initialized = True\<rparr>, window_handle = Some 1,
         initialization_attempted = True, adapter_initialized = True, last_error = None,
         native_calls = [Call_init 1]\<rparr> =
       (Inr (),
        \<lparr>bridge_ref = Some \<lparr>lib = stub_lib, initialized = True\<rparr>, window_handle = Some 1,
         initialization_attempted = True, adapter_initialized = True, last_error = None,
         native_calls = [Call_init 1]\<rparr>)"
proof -
  have e: "extract_handle (Some broken_window) = Inr None"
    by (simp add: extract_handle_def accessor_result_def broken_window_def)
  show ?thesis
    using set_main_window_without_handle [of "Some broken_window"
        "\<lparr>bridge_ref = Some \<lparr>lib = stub_lib, initialized = True\<rparr>, window_handle = Some 1,
         initialization_attempted = True, adapter_initialized = True, last_error = None,
         native_calls = [Call_init 1]\<rparr>"]
    by (simp add: e truthy_def prod_eq_iff)
qed

lemma set_main_window_with_handle:
  "extract_handle window = Inr handle \<Longrightarrow> truthy handle \<Longrightarrow>
   set_main_window window v =
     (Inr (),
      v\<lparr>window_handle := handle, initialization_attempted := False,
        adapter_initialized := False, bridge_ref := None,
        native_calls := native_calls v @ (if bridge_ref v = None then [] else [Call_shutdown])\<rparr>)"
  by (auto simp: set_main_window_def bridge_shutdown_def Let_def split: option.splits sum.splits)

section \<open>Adapter: what a call adds to the native call log\<close>

lemma auto_detect_calls:
  "native_calls (snd (auto_detect_window_handle env v)) = native_calls v"
  by (simp add: auto_detect_window_handle_def split: option.splits sum.splits)

lemma bridge_init_calls:
  "\<exists>cs. snd (snd (bridge_init hwnd (b, calls))) = calls @ cs \<and> Call_shutdown \<notin> set cs"
  by (auto simp: bridge_init_def split: sum.splits handle_val.splits)

lemma bridge_speak_calls:
  "\<exists>cs. snd (snd (bridge_speak t i (b, calls))) = calls @ cs \<and> Call_shutdown \<notin> set cs"
  by (auto simp: bridge_speak_def split: sum.splits pytext.splits)

lemma ensure_bridge_calls:
  "\<exists>cs. native_calls (snd (ensure_bridge env v)) = native_calls v @ cs \<and> Call_shutdown \<notin> set cs"
proof (cases "adapter_initialized v \<and> bridge_ref v \<noteq> None")
  case True
  then show ?thesis by (simp add: ensure_bridge_def)
next
  case False
  show ?thesis
  proof (cases "case bridge_ref v of None \<Rightarrow> bridge_new env ''libVoiceOver.dylib'' None
                   | Some b \<Rightarrow> Inr b")
    case (Inl e)
    then show ?thesis using False by (simp add: ensure_bridge_def)
  next
    case (Inr b)
    obtain found v1 where hv: "(if truthy (window_handle v)
             then (Inr (window_handle v), v\<lparr>bridge_ref := Some b\<rparr>)
             else auto_detect_window_handle env (v\<lparr>bridge_ref := Some b\<rparr>)) = (found, v1)"
      by (metis surj_pair)
    have same: "native_calls v1 = native_calls v"
      using hv auto_detect_calls [of env "v\<lparr>bridge_ref := Some b\<rparr>"]
      by (auto split: if_splits)
    show ?thesis
    proof (cases found)
      case (Inl e)
      then show ?thesis using False Inr hv same
        by (auto simp: ensure_bridge_def)
    next
      case hd: (Inr handle)
      show ?thesis
      proof (cases "truthy handle")
        case nt: False
        then show ?thesis using False Inr hv hd same
          by (auto simp: ensure_bridge_def truthy_def split: option.splits)
      next
        case t: True
        then obtain p where p: "handle = Some p" "p \<noteq> 0"
          by (auto simp: truthy_def split: option.splits)
        obtain r b' calls' where
          bi: "bridge_init (HVoidP p) (b, native_calls v1) = (r, (b', calls'))"
          by (metis prod_cases3)
        obtain cs where cs: "calls' = native_calls v @ cs" "Call_shutdown \<notin> set cs"
          using bridge_init_calls [of "HVoidP p" b "native_calls v1"] bi same by auto
        show ?thesis using False Inr hv hd p bi cs
          by (cases r) (auto simp: ensure_bridge_def)
      qed
    qed
  qed
qed

lemma adapter_step_keeps_bridge:
  assumes "bridge_ref (adapter_step env op v) \<noteq> None"
  shows "\<exists>cs. native_calls (adapter_step env op v) = native_calls v @ cs \<and> Call_shutdown \<notin> set cs"
proof (cases op)
  case (A_speak t i)
  obtain ready v1 where e: "ensure_bridge env v = (ready, v1)" by (metis surj_pair)
  obtain cs where cs: "native_calls v1 = native_calls v @ cs" "Call_shutdown \<notin> set cs"
    using ensure_bridge_calls [of env v] e by auto
  show ?thesis
  proof (cases "ready = Inr True \<and> bridge_ref v1 \<noteq> None \<and> (\<exists>j. i = Inr j)")
    case False
    then show ?thesis using A_speak e cs
      by (cases ready; cases i) (auto simp: speak_def split: option.splits)
  next
    case True
    then obtain b j where bj: "bridge_ref v1 = Some b" "i = Inr j" by auto
    obtain r b' calls' where bs: "bridge_speak t j (b, native_calls v1) = (r, (b', calls'))"
      by (metis prod_cases3)
    obtain cs' where cs': "calls' = native_calls v1 @ cs'" "Call_shutdown \<notin> set cs'"
      using bridge_speak_calls [of t j b "native_calls v1"] bs by auto
    show ?thesis using A_speak e cs True bj bs cs'
      by (cases r) (auto simp: speak_def)
  qed
next
  case A_silence
  show ?thesis
  proof (cases "bridge_ref v")
    case None
    then show ?thesis using A_silence by (simp add: silence_def)
  next
    case (Some b)
    obtain r b' calls' where
      bs: "bridge_speak (PyStr []) True (b, native_calls v) = (r, (b', calls'))"
      by (metis prod_cases3)
    obtain cs' where cs': "calls' = native_calls v @ cs'" "Call_shutdown \<notin> set cs'"
      using bridge_speak_calls [of "PyStr []" True b "native_calls v"] bs by auto
    show ?thesis using A_silence Some bs cs'
      by (auto simp: silence_def)
  qed
next
  case A_is_active
  obtain ready v1 where
    e: "(if bridge_ref v = None then ensure_bridge env v else (Inr True, v)) = (ready, v1)"
    by (metis surj_pair)
  obtain cs where cs: "native_calls v1 = native_calls v @ cs" "Call_shutdown \<notin> set cs"
    using ensure_bridge_calls [of env v] e by (cases "bridge_ref v = None") auto
  show ?thesis
  proof (cases ready)
    case (Inl exc)
    then show ?thesis using A_is_active e cs by (auto simp: is_active_def)
  next
    case (Inr rdy)
    show ?thesis
    proof (cases "bridge_ref v1")
      case None
      then show ?thesis using A_is_active e cs Inr by (auto simp: is_active_def)
    next
      case (Some b)
      then show ?thesis using A_is_active e cs Inr
        by (cases "vo_is_running (lib b) (native_calls v1)")
           (auto simp: is_active_def bridge_is_running_def)
    qed
  qed
next
  case A_shutdown
  then show ?thesis using assms
    by (cases "bridge_ref v") (auto simp: shutdown_def split: prod.splits)
qed

lemma run_adapter_snoc:
  "run_adapter env (ops @ [op]) v = adapter_step env op (run_adapter env ops v)"
  by (simp add: run_adapter_def)

lemma bridge_never_shut_down:
  assumes "bridge_ref (run_adapter env ops v) \<noteq> None" and "bridge_ref v = None"
  shows "\<exists>k cs. k \<le> length ops \<and> bridge_ref (run_adapter env (take k ops) v) = None
          \<and> native_calls (run_adapter env ops v) =
              native_calls (run_adapter env (take k ops) v) @ cs
          \<and> Call_shutdown \<notin> set cs"
  using assms
proof (induction ops rule: rev_induct)
  case Nil
  then show ?case by (simp add: run_adapter_def)
next
  case (snoc op ops)
  let ?v' = "run_adapter env ops v"
  have step: "run_adapter env (ops @ [op]) v = adapter_step env op ?v'"
    by (rule run_adapter_snoc)
  obtain cs where cs: "native_calls (adapter_step env op ?v') = native_calls ?v' @ cs"
      "Call_shutdown \<notin> set cs"
    using adapter_step_keeps_bridge [of env op ?v'] snoc.prems(1) step by auto
  show ?case
  proof (cases "bridge_ref ?v' = None")
    case True
    have "length ops \<le> length (ops @ [op])" by simp
    moreover have "bridge_ref (run_adapter env (take (length ops) (ops @ [op])) v) = None"
      using True by simp
    moreover have "native_calls (run_adapter env (ops @ [op]) v) =
        native_calls (run_adapter env (take (length ops) (ops @ [op])) v) @ cs"
      using cs step by simp
    ultimately show ?thesis using cs(2) by blast
  next
    case False
    then obtain k cs' where k: "k \<le> length ops"
        "bridge_ref (run_adapter env (take k ops) v) = None"
        "native_calls ?v' = native_calls (run_adapter env (take k ops) v) @ cs'"
        "Call_shutdown \<notin> set cs'"
      using snoc.IH snoc.prems(2) by blast
    have "k \<le> length (ops @ [op])" using k(1) by simp
    moreover have "bridge_ref (run_adapter env (take k (ops @ [op])) v) = None"
      using k(1,2) by simp
    moreover have "native_calls (run_adapter env (ops @ [op]) v) =
        native_calls (run_adapter env (take k (ops @ [op])) v) @ (cs' @ cs)"
      using k(1,3) cs step by simp
    moreover have "Call_shutdown \<notin> set (cs' @ cs)" using k(4) cs(2) by simp
    ultimately show ?thesis by blast
  qed
qed

text \<open>
  Claim C4. After \<open>set_main_window(W1)\<close>, any calls of \<open>speak\<close>, \<open>silence\<close>,
  \<open>is_active\<close> and \<open>shutdown\<close>, and then \<open>set_main_window(W2)\<close>, with a usable handle
  extracted from both windows: both calls return; the first leaves no bridge, so a
  bridge present before the second call was created under \<open>W1\<close>; no native shutdown was
  logged since the adapter last had no bridge, so that bridge had not been shut down;
  the second call stores the handle of \<open>W2\<close>, discards the bridge, clears both flags,
  and adds exactly one native shutdown to the log when there was a bridge and nothing
  otherwise.
\<close>

theorem set_main_window_replaces_window:
  assumes "extract_handle W1 = Inr h1" and "truthy h1"
    and "extract_handle W2 = Inr h2" and "truthy h2"
    and "v1 = snd (set_main_window W1 v0)"
    and "v2 = run_adapter env ops v1"
    and "v3 = snd (set_main_window W2 v2)"
  shows "fst (set_main_window W1 v0) = Inr ()
       \<and> fst (set_main_window W2 v2) = Inr ()
       \<and> bridge_ref v1 = None
       \<and> (bridge_ref v2 \<noteq> None \<longrightarrow>
            (\<exists>k cs. k \<le> length ops \<and> bridge_ref (run_adapter env (take k ops) v1) = None
               \<and> native_calls v2 = native_calls (run_adapter env (take k ops) v1) @ cs
               \<and> Call_shutdown \<notin> set cs))
       \<and> window_handle v3 = h2
       \<and> bridge_ref v3 = None
       \<and> \<not> initialization_attempted v3
       \<and> \<not> adapter_initialized v3
       \<and> native_calls v3 =
           native_calls v2 @ (if bridge_ref v2 = None then [] else [Call_shutdown])"
proof -
  have r1: "fst (set_main_window W1 v0) = Inr ()" and n1: "bridge_ref v1 = None"
    using assms(1,2,5) by (simp_all add: set_main_window_with_handle)
  have inv: "bridge_ref v2 \<noteq> None \<longrightarrow>
            (\<exists>k cs. k \<le> length ops \<and> bridge_ref (run_adapter env (take k ops) v1) = None
               \<and> native_calls v2 = native_calls (run_adapter env (take k ops) v1) @ cs
               \<and> Call_shutdown \<notin> set cs)"
    using bridge_never_shut_down [of env ops v1] n1 assms(6) by blast
  have last: "fst (set_main_window W2 v2) = Inr ()
       \<and> window_handle v3 = h2 \<and> bridge_ref v3 = None
       \<and> \<not> initialization_attempted v3 \<and> \<not> adapter_initialized v3
       \<and> native_calls v3 =
           native_calls v2 @ (if bridge_ref v2 = None then [] else [Call_shutdown])"
    using assms(3,4,7) by (simp add: set_main_window_with_handle)
  from r1 n1 inv last show ?thesis by blast
qed

theorem set_main_window_replaces_window_witness:
  "extract_handle (Some window1) = Inr (Some 1) \<and> truthy (Some 1)
   \<and> extract_handle (Some window2) = Inr (Some 2) \<and> truthy (Some 2)
   \<and> window_handle (snd (set_main_window (Some window2)
        (run_adapter stub_env [A_speak (PyStr [120]) (Inr False)]
           (snd (set_main_window (Some window1) (voiceover_new [])))))) = Some 2
   \<and> native_calls (snd (set_main_window (Some window2)
        (run_adapter stub_env [A_speak (PyStr [120]) (Inr False)]
           (snd (set_main_window (Some window1) (voiceover_new [])))))) =
      [Call_init 1, Call_announce [120] 0, Call_shutdown]"
proof -
  have t: "truthy (Some 1)" "truthy (Some 2)"
    by (simp_all add: truthy_def)
  have r: "run_adapter stub_env [A_speak (PyStr [120]) (Inr False)]
             (snd (set_main_window (Some window1) (voiceover_new []))) =
           \<lparr>bridge_ref = Some \<lparr>lib = stub_lib, initialized = True\<rparr>, window_handle = Some 1,
            initialization_attempted = True, adapter_initialized = True, last_error = None,
            native_calls = [Call_init 1, Call_announce [120] 0]\<rparr>"
    by (simp add: run_adapter_def stub_window1_state stub_speak_window1)
  show ?thesis
    using set_main_window_replaces_window
            [OF extract_window1 t(1) extract_window2 t(2) refl refl refl,
             of "voiceover_new []" stub_env "[A_speak (PyStr [120]) (Inr False)]"]
    by (simp add: extract_window1 extract_window2 t r)
qed

section \<open>Adapter: readiness and the window handle\<close>

lemma auto_detect_result:
  "fst (auto_detect_window_handle env v) = fst (auto_detect_window_handle env v')"
  by (simp add: auto_detect_window_handle_def split: option.splits sum.splits)

lemma auto_detect_state:
  "fst (auto_detect_window_handle env v) = Inr handle \<Longrightarrow> \<not> truthy handle \<Longrightarrow>
   snd (auto_detect_window_handle env v) = v"
  by (auto simp: auto_detect_window_handle_def split: option.splits sum.splits)

lemma auto_detect_state_raised:
  "fst (auto_detect_window_handle env v) = Inl e \<Longrightarrow>
   snd (auto_detect_window_handle env v) = v"
  by (auto simp: auto_detect_window_handle_def split: option.splits sum.splits)

lemma ensure_bridge_construction_fails:
  "bridge_ref v = None \<Longrightarrow> bridge_new env ''libVoiceOver.dylib'' None = Inl e \<Longrightarrow>
   ensure_bridge env v = (Inr False, v\<lparr>last_error := Some e\<rparr>)"
  by (simp add: ensure_bridge_def)

lemma ensure_bridge_no_handle:
  assumes "\<not> (adapter_initialized v \<and> bridge_ref v \<noteq> None)"
    and "\<not> truthy (window_handle v)"
    and "fst (auto_detect_window_handle env v) = Inr handle"
    and "\<not> truthy handle"
  shows "fst (ensure_bridge env v) = Inr False
       \<and> native_calls (snd (ensure_bridge env v)) = native_calls v
       \<and> (bridge_ref v = None \<longrightarrow>
            bridge_ref (snd (ensure_bridge env v)) =
              (case bridge_new env ''libVoiceOver.dylib'' None of Inl e \<Rightarrow> None | Inr b \<Rightarrow> Some b))
       \<and> (bridge_ref v \<noteq> None \<longrightarrow> bridge_ref (snd (ensure_bridge env v)) = bridge_ref v)"
proof -
  have ad: "auto_detect_window_handle env v' = (Inr handle, v')" for v'
  proof -
    have "fst (auto_detect_window_handle env v') = Inr handle"
      using assms(3) auto_detect_result [of env v v'] by simp
    then show ?thesis
      using auto_detect_state [of env v' handle] assms(4) by (simp add: prod_eq_iff)
  qed
  show ?thesis
  proof (cases "case bridge_ref v of None \<Rightarrow> bridge_new env ''libVoiceOver.dylib'' None
                   | Some b \<Rightarrow> Inr b")
    case (Inl e)
    then show ?thesis using assms(1)
      by (auto simp: ensure_bridge_def split: option.splits)
  next
    case (Inr b)
    then show ?thesis
      using assms(1,2,4) ad [of "v\<lparr>bridge_ref := Some b\<rparr>"]
      by (cases handle) (auto simp: ensure_bridge_def truthy_def split: option.splits)
  qed
qed

text \<open>\<open>_ensure_bridge\<close> raises exactly when it reaches the auto-detection and the
  auto-detection raises: the adapter is not ready, a bridge is there or can be
  constructed, and no usable window handle is stored.\<close>

lemma ensure_bridge_raises:
  "fst (ensure_bridge env v) = Inl e \<longleftrightarrow>
     \<not> (adapter_initialized v \<and> bridge_ref v \<noteq> None)
     \<and> (bridge_ref v \<noteq> None \<or> (\<exists>b. bridge_new env ''libVoiceOver.dylib'' None = Inr b))
     \<and> \<not> truthy (window_handle v)
     \<and> fst (auto_detect_window_handle env v) = Inl e"
proof (cases "adapter_initialized v \<and> bridge_ref v \<noteq> None")
  case True
  then show ?thesis by (simp add: ensure_bridge_def)
next
  case ni: False
  show ?thesis
  proof (cases "case bridge_ref v of None \<Rightarrow> bridge_new env ''libVoiceOver.dylib'' None
                   | Some b \<Rightarrow> Inr b")
    case (Inl exc)
    then show ?thesis using ni
      by (auto simp: ensure_bridge_def split: option.splits)
  next
    case (Inr b)
    have avail: "bridge_ref v \<noteq> None \<or> (\<exists>b. bridge_new env ''libVoiceOver.dylib'' None = Inr b)"
      using Inr by (auto split: option.splits)
    show ?thesis
    proof (cases "truthy (window_handle v)")
      case True
      obtain r b' calls' where
        "bridge_init (HVoidP (the (window_handle v))) (b, native_calls v) = (r, (b', calls'))"
        by (metis prod_cases3)
      then show ?thesis using ni Inr True
        by (cases r) (auto simp: ensure_bridge_def truthy_def split: option.splits)
    next
      case nt: False
      let ?v1 = "v\<lparr>bridge_ref := Some b\<rparr>"
      obtain found v2 where ad: "auto_detect_window_handle env ?v1 = (found, v2)"
        by (metis surj_pair)
      have f: "fst (auto_detect_window_handle env v) = found"
        using ad auto_detect_result [of env v ?v1] by simp
      show ?thesis
      proof (cases found)
        case (Inl exc)
        then show ?thesis using ni Inr nt ad f avail
          by (auto simp: ensure_bridge_def)
      next
        case hd: (Inr handle)
        show ?thesis
        proof (cases "truthy handle")
          case False
          then show ?thesis using ni Inr nt ad f hd
            by (auto simp: ensure_bridge_def truthy_def split: option.splits)
        next
          case True
          then obtain p where p: "handle = Some p" "p \<noteq> 0"
            by (auto simp: truthy_def split: option.splits)
          obtain r b' calls' where
            "bridge_init (HVoidP p) (b, native_calls v2) = (r, (b', calls'))"
            by (metis prod_cases3)
          then show ?thesis using ni Inr nt ad f hd p
            by (cases r) (auto simp: ensure_bridge_def)
        qed
      qed
    qed
  qed
qed

section \<open>Adapter: is_active\<close>

text \<open>When there is no bridge yet, one can be constructed, no usable handle is stored
  and the auto-detection raises, \<open>is_active\<close> raises that exception.\<close>

lemma is_active_raises:
  assumes "bridge_ref v = None"
    and "bridge_new env ''libVoiceOver.dylib'' None = Inr b"
    and "\<not> truthy (window_handle v)"
    and "fst (auto_detect_window_handle env v) = Inl e"
  shows "fst (is_active env v) = Inl e"
proof -
  have "fst (ensure_bridge env v) = Inl e"
    using assms by (simp add: ensure_bridge_raises)
  then show ?thesis
    using assms(1) by (cases "ensure_bridge env v") (simp add: is_active_def)
qed

text \<open>
  Claim C8, at the input where it fails. A new adapter, no window ever set, no GUI
  toolkit to detect one from, and a library that loads and reports VoiceOver as running:
  \<open>is_active()\<close> returns true.
\<close>

theorem is_active_true_without_handle:
  "window_handle (voiceover_new []) = None
   \<and> fst (auto_detect_window_handle stub_env (voiceover_new [])) = Inr None
   \<and> fst (is_active stub_env (voiceover_new [])) = Inr True"
proof -
  have e: "ensure_bridge stub_env (voiceover_new []) =
     (Inr False,
      \<lparr>bridge_ref = Some \<lparr>lib = stub_lib, initialized = False\<rparr>, window_handle = None,
       initialization_attempted = True, adapter_initialized = False, last_error = None,
       native_calls = []\<rparr>)"
    by (simp add: ensure_bridge_def stub_bridge_new truthy_def stub_auto_detect voiceover_new_def)
  have "bridge_ref (voiceover_new []) = None" by (simp add: voiceover_new_def)
  then show ?thesis
    by (simp add: is_active_def e stub_auto_detect bridge_is_running_def stub_lib_def)
       (simp add: voiceover_new_def)
qed

text \<open>
  Claim C8, amended. On an adapter with no stored window handle, for which
  auto-detection returns without a handle, \<open>is_active()\<close> does not raise. It returns
  false when there is no bridge and none can be constructed; otherwise it returns what
  the native \<open>vo_is_running\<close> returns on the bridge it has or has just constructed,
  and false when that call raises.
\<close>

theorem is_active_without_handle:
  assumes "window_handle v = None"
    and "fst (auto_detect_window_handle env v) = Inr handle"
    and "\<not> truthy handle"
  shows "fst (is_active env v) =
           Inr (case (case bridge_ref v of
                        None \<Rightarrow> bridge_new env ''libVoiceOver.dylib'' None
                      | Some b \<Rightarrow> Inr b) of
                  Inl e \<Rightarrow> False
                | Inr b \<Rightarrow>
                    (case vo_is_running (lib b) (native_calls v) of
                       Inl e \<Rightarrow> False
                     | Inr r \<Rightarrow> r))"
proof (cases "bridge_ref v")
  case None
  have nt: "\<not> truthy (window_handle v)" using assms(1) by (simp add: truthy_def)
  have ni: "\<not> (adapter_initialized v \<and> bridge_ref v \<noteq> None)" using None by simp
  note eb = ensure_bridge_no_handle [OF ni nt assms(2,3)]
  obtain r v1 where e: "ensure_bridge env v = (r, v1)" by (metis surj_pair)
  show ?thesis
    using None eb e
    by (cases "bridge_new env ''libVoiceOver.dylib'' None")
       (auto simp: is_active_def bridge_is_running_def split: sum.splits option.splits)
next
  case (Some b)
  then show ?thesis
    by (auto simp: is_active_def bridge_is_running_def split: sum.splits)
qed

theorem is_active_without_handle_witness:
  "window_handle (voiceover_new []) = None
   \<and> fst (auto_detect_window_handle missing_env (voiceover_new [])) = Inr None
   \<and> \<not> truthy None
   \<and> fst (is_active missing_env (voiceover_new [])) = Inr False"
  using is_active_without_handle [of "voiceover_new []" missing_env None]
  by (simp add: missing_auto_detect truthy_def missing_bridge_new voiceover_new_def)

section \<open>Adapter: speak\<close>

lemma speak_result:
  "fst (speak env text interrupt v) =
     (case fst (ensure_bridge env v) of
        Inl e \<Rightarrow> Inl e
      | Inr ready \<Rightarrow>
          Inr (ready
               \<and> (\<exists>b i. bridge_ref (snd (ensure_bridge env v)) = Some b \<and> interrupt = Inr i
                     \<and> fst (bridge_speak text i
                              (b, native_calls (snd (ensure_bridge env v)))) = Inr True)))"
proof (cases "ensure_bridge env v")
  case (Pair outcome v1)
  show ?thesis
  proof (cases outcome)
    case (Inl e)
    then show ?thesis using Pair by (simp add: speak_def)
  next
    case (Inr ready)
    show ?thesis
    proof (cases ready)
      case False
      then show ?thesis using Pair Inr by (simp add: speak_def)
    next
      case True
      show ?thesis
      proof (cases "bridge_ref v1")
        case None
        then show ?thesis using Pair Inr True by (simp add: speak_def)
      next
        case (Some b)
        show ?thesis
        proof (cases interrupt)
          case (Inl exc)
          then show ?thesis using Pair Inr True Some
            by (simp add: speak_def)
        next
          case i: (Inr i)
          obtain r b' calls' where
            bs: "bridge_speak text i (b, native_calls v1) = (r, (b', calls'))"
            by (metis prod_cases3)
          then show ?thesis using Pair Inr True Some i
            by (cases r) (simp_all add: speak_def)
        qed
      qed
    qed
  qed
qed

text \<open>\<open>speak\<close> raises exactly what \<open>_ensure_bridge\<close> raises.\<close>

lemma speak_raises:
  "fst (speak env text interrupt v) = Inl e \<longleftrightarrow> fst (ensure_bridge env v) = Inl e"
  by (simp add: speak_result split: sum.splits)

text \<open>
  Claim C1, at the input where it fails. A new adapter, a library that loads, no window
  set, and a GUI toolkit whose top window returns \<open>float('inf')\<close> as its handle:
  \<open>int()\<close> raises \<open>OverflowError\<close>, which \<open>_extract_handle\<close> does not catch, and the
  auto-detection is called outside every \<open>try\<close>, so \<open>speak\<close> raises it to the caller.
\<close>

theorem speak_raises_from_auto_detection:
  "fst (speak (gui_env inf_window) (PyStr [120]) (Inr False) (voiceover_new [])) =
     Inl (OverflowError ''cannot convert float infinity to integer'')"
proof -
  have "fst (ensure_bridge (gui_env inf_window) (voiceover_new [])) =
          Inl (OverflowError ''cannot convert float infinity to integer'')"
    by (simp add: ensure_bridge_def gui_bridge_new gui_auto_detect_inf_window truthy_def
                  voiceover_new_def)
  then show ?thesis by (simp add: speak_result)
qed

text \<open>
  Claim C1, amended. Whenever the window auto-detection is not reached or returns (the
  adapter has a usable window handle stored, or is ready, or has no bridge and cannot
  construct one, or the auto-detection returns a handle or none), \<open>VoiceOver.speak\<close>
  returns a boolean and raises nothing, for every text, every \<open>interrupt\<close> value, every
  adapter state and every behaviour of the library loader and of the native functions.
  The boolean is true exactly when the adapter is ready and the bridge's \<open>speak\<close>
  returned true. It is false when the bridge cannot be constructed, when no window
  handle is available, when the native init returns false or raises, and when the
  bridge's \<open>speak\<close>, with its native announce call, raises.
\<close>

theorem speak_returns_bool:
  "(truthy (window_handle v)
      \<or> (\<exists>handle. fst (auto_detect_window_handle env v) = Inr handle)
      \<or> (adapter_initialized v \<and> bridge_ref v \<noteq> None)
      \<or> (bridge_ref v = None \<and> (\<exists>exc. bridge_new env ''libVoiceOver.dylib'' None = Inl exc))
    \<longrightarrow>
      (\<exists>ready. fst (ensure_bridge env v) = Inr ready
         \<and> fst (speak env text interrupt v) =
             Inr (ready
                  \<and> (\<exists>b i. bridge_ref (snd (ensure_bridge env v)) = Some b
                        \<and> interrupt = Inr i
                        \<and> fst (bridge_speak text i
                                 (b, native_calls (snd (ensure_bridge env v)))) = Inr True))))
   \<and> (bridge_ref v = None \<and> bridge_new env ''libVoiceOver.dylib'' None = Inl e \<longrightarrow>
        fst (speak env text interrupt v) = Inr False)
   \<and> (\<not> (adapter_initialized v \<and> bridge_ref v \<noteq> None) \<and> \<not> truthy (window_handle v)
        \<and> fst (auto_detect_window_handle env v) = Inr h \<and> \<not> truthy h \<longrightarrow>
        fst (speak env text interrupt v) = Inr False)
   \<and> (\<not> adapter_initialized v \<and> bridge_ref v = Some b \<and> window_handle v = Some p \<and> p \<noteq> 0
        \<and> vo_init_with_window (lib b) (native_calls v) p \<noteq> Inr True \<longrightarrow>
        fst (speak env text interrupt v) = Inr False)
   \<and> (adapter_initialized v \<and> bridge_ref v = Some b \<and> interrupt = Inr i
        \<and> fst (bridge_speak text i (b, native_calls v)) = Inl e' \<longrightarrow>
        fst (speak env text interrupt v) = Inr False)"
proof -
  have main: "truthy (window_handle v)
      \<or> (\<exists>handle. fst (auto_detect_window_handle env v) = Inr handle)
      \<or> (adapter_initialized v \<and> bridge_ref v \<noteq> None)
      \<or> (bridge_ref v = None \<and> (\<exists>exc. bridge_new env ''libVoiceOver.dylib'' None = Inl exc))
    \<longrightarrow>
      (\<exists>ready. fst (ensure_bridge env v) = Inr ready
         \<and> fst (speak env text interrupt v) =
             Inr (ready
                  \<and> (\<exists>b i. bridge_ref (snd (ensure_bridge env v)) = Some b
                        \<and> interrupt = Inr i
                        \<and> fst (bridge_speak text i
                                 (b, native_calls (snd (ensure_bridge env v)))) = Inr True)))"
  proof
    assume H: "truthy (window_handle v)
      \<or> (\<exists>handle. fst (auto_detect_window_handle env v) = Inr handle)
      \<or> (adapter_initialized v \<and> bridge_ref v \<noteq> None)
      \<or> (bridge_ref v = None \<and> (\<exists>exc. bridge_new env ''libVoiceOver.dylib'' None = Inl exc))"
    have "\<forall>exc. fst (ensure_bridge env v) \<noteq> Inl exc"
      using H by (auto simp: ensure_bridge_raises)
    then obtain ready where r: "fst (ensure_bridge env v) = Inr ready"
      by (cases "fst (ensure_bridge env v)") auto
    then show "\<exists>ready. fst (ensure_bridge env v) = Inr ready
         \<and> fst (speak env text interrupt v) =
             Inr (ready
                  \<and> (\<exists>b i. bridge_ref (snd (ensure_bridge env v)) = Some b
                        \<and> interrupt = Inr i
                        \<and> fst (bridge_speak text i
                                 (b, native_calls (snd (ensure_bridge env v)))) = Inr True))"
      by (simp add: speak_result)
  qed
  have constr: "bridge_ref v = None \<and> bridge_new env ''libVoiceOver.dylib'' None = Inl e \<longrightarrow>
        fst (speak env text interrupt v) = Inr False"
    by (simp add: speak_result ensure_bridge_construction_fails)
  have nohandle: "\<not> (adapter_initialized v \<and> bridge_ref v \<noteq> None) \<and> \<not> truthy (window_handle v)
        \<and> fst (auto_detect_window_handle env v) = Inr h \<and> \<not> truthy h \<longrightarrow>
        fst (speak env text interrupt v) = Inr False"
    using ensure_bridge_no_handle [of v env h] by (auto simp: speak_result)
  have initfail: "\<not> adapter_initialized v \<and> bridge_ref v = Some b \<and> window_handle v = Some p
        \<and> p \<noteq> 0 \<and> vo_init_with_window (lib b) (native_calls v) p \<noteq> Inr True \<longrightarrow>
        fst (speak env text interrupt v) = Inr False"
  proof (intro impI, elim conjE)
    assume a: "\<not> adapter_initialized v" "bridge_ref v = Some b" "window_handle v = Some p"
      "p \<noteq> 0" "vo_init_with_window (lib b) (native_calls v) p \<noteq> Inr True"
    have "fst (ensure_bridge env v) = Inr False"
      using a by (cases "vo_init_with_window (lib b) (native_calls v) p")
        (auto simp: ensure_bridge_def truthy_def bridge_init_def)
    then show "fst (speak env text interrupt v) = Inr False"
      by (simp add: speak_result)
  qed
  have announce: "adapter_initialized v \<and> bridge_ref v = Some b \<and> interrupt = Inr i
        \<and> fst (bridge_speak text i (b, native_calls v)) = Inl e' \<longrightarrow>
        fst (speak env text interrupt v) = Inr False"
    by (auto simp: speak_result ensure_bridge_def)
  show ?thesis
    by (intro conjI main constr nohandle initfail announce)
qed

theorem speak_returns_bool_witness:
  "fst (auto_detect_window_handle (gui_env window1) (voiceover_new [])) = Inr (Some 1)
   \<and> fst (speak (gui_env window1) (PyStr [120]) (Inr False) (voiceover_new [])) = Inr True
   \<and> bridge_ref (voiceover_new []) = None
   \<and> bridge_new missing_env ''libVoiceOver.dylib'' None =
       Inl (FileNotFoundError
         ''VoiceOver dylib not found. Searched: /p/lib/libVoiceOver.dylib, /w/libVoiceOver.dylib'')
   \<and> fst (speak missing_env (PyStr [120]) (Inr False) (voiceover_new [])) = Inr False"
proof -
  have n: "bridge_ref (voiceover_new []) = None"
    by (simp add: voiceover_new_def)
  have a: "fst (speak missing_env (PyStr [120]) (Inr False) (voiceover_new [])) = Inr False"
    using speak_returns_bool [of "voiceover_new []" missing_env "PyStr [120]" "Inr False"
                 "FileNotFoundError
         ''VoiceOver dylib not found. Searched: /p/lib/libVoiceOver.dylib, /w/libVoiceOver.dylib''",
              THEN conjunct2, THEN conjunct1] n missing_bridge_new
    by simp
  have d: "fst (auto_detect_window_handle (gui_env window1) (voiceover_new [])) = Inr (Some 1)"
    by (simp add: gui_auto_detect_window1)
  have e: "ensure_bridge (gui_env window1) (voiceover_new []) =
     (Inr True,
      \<lparr>bridge_ref = Some \<lparr>lib = stub_lib, initialized = True\<rparr>, window_handle = Some 1,
       initialization_attempted = True, adapter_initialized = True, last_error = None,
       native_calls = [Call_init 1]\<rparr>)"
    by (simp add: ensure_bridge_def gui_bridge_new gui_auto_detect_window1 truthy_def
                  bridge_init_def stub_lib_def voiceover_new_def)
  have s: "bridge_speak (PyStr [120]) False (\<lparr>lib = stub_lib, initialized = True\<rparr>, [Call_init 1]) =
             (Inr True, (\<lparr>lib = stub_lib, initialized = True\<rparr>,
                         [Call_init 1, Call_announce [120] 0]))"
    by (simp add: bridge_speak_def utf8_char_def stub_lib_def)
  have ex: "\<exists>i. \<not> i \<and>
      fst (bridge_speak (PyStr [120]) i (\<lparr>lib = stub_lib, initialized = True\<rparr>, [Call_init 1])) =
        Inr True"
    by (rule exI [of _ False]) (simp add: s)
  have b: "fst (speak (gui_env window1) (PyStr [120]) (Inr False) (voiceover_new [])) = Inr True"
    using ex d speak_returns_bool [of "voiceover_new []" "gui_env window1" "PyStr [120]"
                 "Inr False", THEN conjunct1]
    by (auto simp: e)
  show ?thesis
    by (intro conjI d b n missing_bridge_new a)
qed

end
